theory Spec2Isabelle
  imports Main
begin

section \<open>Python values seen by the handlers\<close>

text \<open>
  A Python \<open>str\<close> is a sequence of Unicode code points; the default texts of the
  handlers contain code points beyond one byte, and \<open>re\<close> classifies code points.
\<close>

type_synonym ustring = "nat list"

definition ustr :: "string \<Rightarrow> ustring" where
  "ustr s = map of_char s"

text \<open>
  The value of a field of a JSON object: a string, or any other value, of which the
  handlers observe only the truth value, the type name (in the text of an
  \<open>AttributeError\<close>) and the text \<open>str()\<close> gives.
\<close>

datatype pyval = PStr ustring | PObj bool ustring ustring

fun truthy :: "pyval \<Rightarrow> bool" where
  "truthy (PStr s) = (s \<noteq> [])"
| "truthy (PObj b tn r) = b"

fun py_str :: "pyval \<Rightarrow> ustring" where
  "py_str (PStr s) = s"
| "py_str (PObj b tn r) = r"

text \<open>
  Exceptions (all subclasses of \<open>Exception\<close>). \<open>ClientError m\<close> is any exception
  raised inside an external collaborator, with \<open>str(e) = m\<close>.
\<close>

datatype exn = TypeError ustring | AttributeError ustring | KeyError ustring | ClientError ustring

fun str_exn :: "exn \<Rightarrow> ustring" where
  "str_exn (TypeError m) = m"
| "str_exn (AttributeError m) = m"
| "str_exn (KeyError k) = [39] @ k @ [39]"
| "str_exn (ClientError m) = m"

section \<open>The fragment of \<open>re\<close> used by \<open>extract_tweet_id\<close>\<close>

text \<open>
  The two tables of the Unicode database that \<open>\<^verbatim>\<open>\d\<close>\<close> and \<open>\<^verbatim>\<open>\w\<close>\<close> consult for
  code points beyond ASCII (category Nd; alphanumeric) are parameters.
\<close>

record unicode_db =
  uni_decimal :: "nat \<Rightarrow> bool"
  uni_alnum :: "nat \<Rightarrow> bool"

definition is_digit :: "unicode_db \<Rightarrow> nat \<Rightarrow> bool" where
  "is_digit U c = (if c < 128 then 48 \<le> c \<and> c \<le> 57 else uni_decimal U c)"

definition is_word :: "unicode_db \<Rightarrow> nat \<Rightarrow> bool" where
  "is_word U c =
     (if c < 128
      then (48 \<le> c \<and> c \<le> 57) \<or> (65 \<le> c \<and> c \<le> 90) \<or> (97 \<le> c \<and> c \<le> 122) \<or> c = 95
      else uni_alnum U c)"

text \<open>
  A pattern is a sequence of items: a literal character, \<open>\<^verbatim>\<open>\w+\<close>\<close>, or the
  capturing group \<open>\<^verbatim>\<open>(\d+)\<close>\<close>.
\<close>

datatype re_item = Lit nat | WordPlus | DigitsGroup

definition lit :: "string \<Rightarrow> re_item list" where
  "lit s = map (\<lambda>c. Lit (of_char c)) s"

fun first_some :: "('a \<Rightarrow> 'b option) \<Rightarrow> 'a list \<Rightarrow> 'b option" where
  "first_some f [] = None"
| "first_some f (x # xs) = (case f x of Some y \<Rightarrow> Some y | None \<Rightarrow> first_some f xs)"

text \<open>
  Matching at the head of \<open>s\<close>, as the backtracking matcher does: a greedy
  repetition takes the longest run first and gives characters back one at a time.
  The result is the content of group 1 when the pattern matches.
\<close>

primrec re_match :: "unicode_db \<Rightarrow> re_item list \<Rightarrow> ustring \<Rightarrow> ustring option \<Rightarrow> ustring option option" where
  "re_match U [] s cap = Some cap"
| "re_match U (r # rs) s cap =
     (case r of
        Lit c \<Rightarrow> (case s of [] \<Rightarrow> None | x # xs \<Rightarrow> if x = c then re_match U rs xs cap else None)
      | WordPlus \<Rightarrow>
          first_some (\<lambda>k. re_match U rs (drop k s) cap)
            (rev [1..<Suc (length (takeWhile (is_word U) s))])
      | DigitsGroup \<Rightarrow>
          first_some (\<lambda>k. re_match U rs (drop k s) (Some (take k s)))
            (rev [1..<Suc (length (takeWhile (is_digit U) s))]))"

text \<open>\<open>re.search\<close>: the leftmost start position at which the pattern matches.\<close>

definition re_search :: "unicode_db \<Rightarrow> re_item list \<Rightarrow> ustring \<Rightarrow> ustring option option" where
  "re_search U p s = first_some (\<lambda>i. re_match U p (drop i s) None) [0..<Suc (length s)]"

text \<open>\<open>re.search\<close> raises \<open>TypeError\<close> on an argument that is not a string.\<close>

definition re_search_py :: "unicode_db \<Rightarrow> re_item list \<Rightarrow> pyval \<Rightarrow> exn + ustring option option" where
  "re_search_py U p v =
     (case v of
        PStr s \<Rightarrow> Inr (re_search U p s)
      | PObj b tn r \<Rightarrow> Inl (TypeError (ustr ''expected string or bytes-like object'')))"

section \<open>\<open>extract_tweet_id\<close>\<close>

definition patterns :: "re_item list list" where
  "patterns =
     [lit ''status/'' @ [DigitsGroup],
      lit ''twitter.com/'' @ [WordPlus] @ lit ''/status/'' @ [DigitsGroup],
      lit ''twitter.com/status/'' @ [DigitsGroup],
      lit ''x.com/'' @ [WordPlus] @ lit ''/status/'' @ [DigitsGroup]]"

text \<open>The \<open>for pattern in patterns\<close> loop, inside the \<open>try\<close>.\<close>

fun extract_loop :: "unicode_db \<Rightarrow> re_item list list \<Rightarrow> pyval \<Rightarrow> exn + ustring option" where
  "extract_loop U [] v = Inr None"
| "extract_loop U (p # ps) v =
     (case re_search_py U p v of
        Inl e \<Rightarrow> Inl e
      | Inr None \<Rightarrow> extract_loop U ps v
      | Inr (Some cap) \<Rightarrow> Inr cap)"

text \<open>The whole function: \<open>except Exception: return None\<close> around the loop.\<close>

definition extract_tweet_id :: "unicode_db \<Rightarrow> pyval \<Rightarrow> exn + ustring option" where
  "extract_tweet_id U v =
     (case extract_loop U patterns v of Inl e \<Rightarrow> Inr None | Inr r \<Rightarrow> Inr r)"

section \<open>Requests, the client and the effects of a batch\<close>

text \<open>An attendee is a \<open>dict\<close>; \<open>d.get(k, default)\<close> reads it.\<close>

type_synonym attendee = "ustring \<rightharpoonup> pyval"

definition dict_get :: "('k \<rightharpoonup> 'v) \<Rightarrow> 'k \<Rightarrow> 'v \<Rightarrow> 'v" where
  "dict_get d k dflt = (case d k of None \<Rightarrow> dflt | Some v \<Rightarrow> v)"

text \<open>\<open>TwitterActionRequest\<close>.\<close>

record twitter_action_request =
  attendees :: "attendee list"
  message :: "ustring option"

text \<open>
  The external calls a handler makes that act on the platform, and its sleeps, in the
  order they happen.
\<close>

datatype event =
    ERetweet ustring
  | ELike ustring
  | EPostTweet ustring ustring
  | EUpdateStatus ustring
  | ESleep nat

text \<open>
  \<open>TwitterClient\<close> is an external collaborator. Its methods may raise, and may
  depend on and change the state \<open>'w\<close> of the outside world. \<open>api\<close> is \<open>None\<close> or an
  object whose \<open>update_status(status=text)\<close> returns a status; the model keeps the
  \<open>id\<close> of that status. \<open>post_tweet\<close> returns a \<open>dict\<close>.
\<close>

record 'w twitter_client =
  api :: "(ustring \<Rightarrow> 'w \<Rightarrow> (exn + pyval) \<times> 'w) option"
  is_operational :: "'w \<Rightarrow> (exn + bool) \<times> 'w"
  retweet_tweet :: "ustring \<Rightarrow> 'w \<Rightarrow> (exn + bool) \<times> 'w"
  like_tweet :: "ustring \<Rightarrow> 'w \<Rightarrow> (exn + bool) \<times> 'w"
  post_tweet :: "ustring \<Rightarrow> ustring \<Rightarrow> 'w \<Rightarrow> (exn + (ustring \<rightharpoonup> pyval)) \<times> 'w"

text \<open>An entry of \<open>results\<close> is a \<open>dict\<close> literal: its items, in the order written.\<close>

type_synonym outcome = "(ustring \<times> pyval) list"

text \<open>
  The local variables of a handler that the loop updates (\<open>results\<close> and the counter
  of successes), with the state of the world and the effects so far.
\<close>

record 'w run =
  results :: "outcome list"
  successful :: int
  world :: 'w
  trace :: "event list"

definition failed_outcome :: "pyval \<Rightarrow> ustring \<Rightarrow> outcome" where
  "failed_outcome username err =
     [(ustr ''username'', username),
      (ustr ''status'', PStr (ustr ''failed'')),
      (ustr ''error'', PStr err)]"

definition append_result :: "outcome \<Rightarrow> 'w run \<Rightarrow> 'w run" where
  "append_result r st = st\<lparr>results := results st @ [r]\<rparr>"

definition sleep :: "nat \<Rightarrow> 'w run \<Rightarrow> 'w run" where
  "sleep n st = st\<lparr>trace := trace st @ [ESleep n]\<rparr>"

text \<open>The \<open>for attendee in request.attendees\<close> loop, over a loop body.\<close>

fun for_each :: "('a \<Rightarrow> 's \<Rightarrow> 's) \<Rightarrow> 'a list \<Rightarrow> 's \<Rightarrow> 's" where
  "for_each body [] st = st"
| "for_each body (x # xs) st = for_each body xs (body x st)"

text \<open>
  What a handler returns: \<open>{"success": False, "error": ...}\<close>, or the report with
  \<open>"success": True\<close>. \<open>success_count\<close> is the field \<open>retweeted_count\<close>,
  \<open>liked_count\<close>, \<open>commented_count\<close> or \<open>quoted_count\<close>; only the quote handler has
  \<open>total_attempted\<close>.
\<close>

record report =
  success_count :: int
  failed_count :: int
  total_attempted :: "int option"
  report_results :: "outcome list"

datatype response = TopFailure ustring | BatchReport report

definition init_run :: "'w \<Rightarrow> 'w run" where
  "init_run w = \<lparr>results = [], successful = 0, world = w, trace = []\<rparr>"

section \<open>\<open>retweet_posts\<close>\<close>

text \<open>
  The body of the \<open>try\<close> of one iteration. \<open>Inl e\<close>: an exception left the body in
  the state given; \<open>Inr ()\<close>: the body ended, by \<open>continue\<close> or at its end. The calls of
  \<open>print\<close> write to the console only and are left out; \<open>time.sleep(n)\<close> is the
  event \<open>ESleep n\<close>.
\<close>

definition retweet_try :: "unicode_db \<Rightarrow> 'w twitter_client \<Rightarrow> pyval \<Rightarrow> pyval \<Rightarrow> 'w run \<Rightarrow> (exn + unit) \<times> 'w run" where
  "retweet_try U c username post_link st =
     (if \<not> truthy post_link
      then (Inr (), append_result (failed_outcome username (ustr ''No post link available'')) st)
      else
        (case extract_tweet_id U post_link of
           Inl e \<Rightarrow> (Inl e, st)
         | Inr None \<Rightarrow>
             (Inr (), append_result (failed_outcome username (ustr ''Could not extract tweet ID from link'')) st)
         | Inr (Some tweet_id) \<Rightarrow>
             if tweet_id = []
             then (Inr (), append_result (failed_outcome username (ustr ''Could not extract tweet ID from link'')) st)
             else
               (case retweet_tweet c tweet_id (world st) of
                  (Inl e, w') \<Rightarrow> (Inl e, st\<lparr>world := w', trace := trace st @ [ERetweet tweet_id]\<rparr>)
                | (Inr retweet_result, w') \<Rightarrow>
                    (let st1 = st\<lparr>world := w', trace := trace st @ [ERetweet tweet_id]\<rparr>;
                         st2 =
                           (if retweet_result
                            then append_result
                                   [(ustr ''username'', username),
                                    (ustr ''status'', PStr (ustr ''retweeted'')),
                                    (ustr ''tweet_id'', PStr tweet_id),
                                    (ustr ''message'', PStr (ustr ''Successfully retweeted post from '' @ py_str username))]
                                   (st1\<lparr>successful := successful st1 + 1\<rparr>)
                            else append_result (failed_outcome username (ustr ''Retweet failed'')) st1)
                     in (Inr (), sleep 2 st2)))))"

text \<open>One iteration: the \<open>try\<close> with its \<open>except Exception\<close>.\<close>

definition retweet_item :: "unicode_db \<Rightarrow> 'w twitter_client \<Rightarrow> attendee \<Rightarrow> 'w run \<Rightarrow> 'w run" where
  "retweet_item U c a st =
     (let username = dict_get a (ustr ''username'') (PStr []);
          post_link = dict_get a (ustr ''post_link'') (PStr [])
      in case retweet_try U c username post_link st of
           (Inr u, st') \<Rightarrow> st'
         | (Inl e, st') \<Rightarrow> append_result (failed_outcome username (str_exn e)) st')"

text \<open>
  The handler. \<open>new_client\<close> is the constructor \<open>TwitterClient()\<close>; an exception
  outside the loop reaches the outer \<open>except\<close>. The handler's effects are returned
  beside its response.
\<close>

definition retweet_posts ::
  "unicode_db \<Rightarrow> ('w \<Rightarrow> (exn + 'w twitter_client) \<times> 'w) \<Rightarrow> twitter_action_request \<Rightarrow> 'w
     \<Rightarrow> response \<times> 'w \<times> event list" where
  "retweet_posts U new_client request w =
     (case new_client w of
        (Inl e, w1) \<Rightarrow> (TopFailure (str_exn e), w1, [])
      | (Inr twitter_client, w1) \<Rightarrow>
          (case is_operational twitter_client w1 of
             (Inl e, w2) \<Rightarrow> (TopFailure (str_exn e), w2, [])
           | (Inr ok, w2) \<Rightarrow>
               if \<not> ok then (TopFailure (ustr ''Twitter client not operational''), w2, [])
               else
                 (let st = for_each (retweet_item U twitter_client) (attendees request) (init_run w2)
                  in (BatchReport
                        \<lparr>success_count = successful st,
                         failed_count = int (length (attendees request)) - successful st,
                         total_attempted = None,
                         report_results = results st\<rparr>,
                      world st, trace st))))"

section \<open>\<open>like_posts\<close>\<close>

text \<open>The body of the \<open>try\<close> of one iteration.\<close>

definition like_try :: "unicode_db \<Rightarrow> 'w twitter_client \<Rightarrow> pyval \<Rightarrow> pyval \<Rightarrow> 'w run \<Rightarrow> (exn + unit) \<times> 'w run" where
  "like_try U c username post_link st =
     (if \<not> truthy post_link
      then (Inr (), append_result (failed_outcome username (ustr ''No post link available'')) st)
      else
        (case extract_tweet_id U post_link of
           Inl e \<Rightarrow> (Inl e, st)
         | Inr None \<Rightarrow>
             (Inr (), append_result (failed_outcome username (ustr ''Could not extract tweet ID from link'')) st)
         | Inr (Some tweet_id) \<Rightarrow>
             if tweet_id = []
             then (Inr (), append_result (failed_outcome username (ustr ''Could not extract tweet ID from link'')) st)
             else
               (case like_tweet c tweet_id (world st) of
                  (Inl e, w') \<Rightarrow> (Inl e, st\<lparr>world := w', trace := trace st @ [ELike tweet_id]\<rparr>)
                | (Inr like_result, w') \<Rightarrow>
                    (let st1 = st\<lparr>world := w', trace := trace st @ [ELike tweet_id]\<rparr>;
                         st2 =
                           (if like_result
                            then append_result
                                   [(ustr ''username'', username),
                                    (ustr ''status'', PStr (ustr ''liked'')),
                                    (ustr ''tweet_id'', PStr tweet_id),
                                    (ustr ''message'', PStr (ustr ''Successfully liked post from '' @ py_str username))]
                                   (st1\<lparr>successful := successful st1 + 1\<rparr>)
                            else append_result (failed_outcome username (ustr ''Like failed'')) st1)
                     in (Inr (), sleep 2 st2)))))"

text \<open>One iteration: the \<open>try\<close> with its \<open>except Exception\<close>.\<close>

definition like_item :: "unicode_db \<Rightarrow> 'w twitter_client \<Rightarrow> attendee \<Rightarrow> 'w run \<Rightarrow> 'w run" where
  "like_item U c a st =
     (let username = dict_get a (ustr ''username'') (PStr []);
          post_link = dict_get a (ustr ''post_link'') (PStr [])
      in case like_try U c username post_link st of
           (Inr u, st') \<Rightarrow> st'
         | (Inl e, st') \<Rightarrow> append_result (failed_outcome username (str_exn e)) st')"

text \<open>The handler.\<close>

definition like_posts ::
  "unicode_db \<Rightarrow> ('w \<Rightarrow> (exn + 'w twitter_client) \<times> 'w) \<Rightarrow> twitter_action_request \<Rightarrow> 'w
     \<Rightarrow> response \<times> 'w \<times> event list" where
  "like_posts U new_client request w =
     (case new_client w of
        (Inl e, w1) \<Rightarrow> (TopFailure (str_exn e), w1, [])
      | (Inr twitter_client, w1) \<Rightarrow>
          (case is_operational twitter_client w1 of
             (Inl e, w2) \<Rightarrow> (TopFailure (str_exn e), w2, [])
           | (Inr ok, w2) \<Rightarrow>
               if \<not> ok then (TopFailure (ustr ''Twitter client not operational''), w2, [])
               else
                 (let st = for_each (like_item U twitter_client) (attendees request) (init_run w2)
                  in (BatchReport
                        \<lparr>success_count = successful st,
                         failed_count = int (length (attendees request)) - successful st,
                         total_attempted = None,
                         report_results = results st\<rparr>,
                      world st, trace st))))"

section \<open>\<open>post_comments\<close>\<close>

text \<open>\<open>x or default\<close> on an optional string: \<open>None\<close> and the empty string are false.\<close>

definition or_default :: "ustring option \<Rightarrow> ustring \<Rightarrow> ustring" where
  "or_default m dflt = (case m of None \<Rightarrow> dflt | Some s \<Rightarrow> if s = [] then dflt else s)"

text \<open>
  \<open>username.replace('@', '')\<close>: every occurrence is removed; a value that is not a
  string has no such method.
\<close>

definition replace_at :: "pyval \<Rightarrow> exn + ustring" where
  "replace_at v =
     (case v of
        PStr s \<Rightarrow> Inr (filter (\<lambda>ch. ch \<noteq> 64) s)
      | PObj b tn r \<Rightarrow>
          Inl (AttributeError ([39] @ tn @ [39] @ ustr '' object has no attribute '' @ [39] @ ustr ''replace'' @ [39])))"

text \<open>\<open>d[k]\<close> on a \<open>dict\<close>.\<close>

definition dict_item :: "(ustring \<rightharpoonup> 'v) \<Rightarrow> ustring \<Rightarrow> exn + 'v" where
  "dict_item d k = (case d k of None \<Rightarrow> Inl (KeyError k) | Some v \<Rightarrow> Inr v)"

definition default_comment :: ustring where
  "default_comment = ustr ''Great post! '' @ [128077]"

definition comment_try ::
  "unicode_db \<Rightarrow> 'w twitter_client \<Rightarrow> ustring option \<Rightarrow> pyval \<Rightarrow> pyval \<Rightarrow> 'w run \<Rightarrow> (exn + unit) \<times> 'w run" where
  "comment_try U c msg username post_link st =
     (let custom_message = or_default msg default_comment in
      if \<not> truthy post_link
      then (Inr (), append_result (failed_outcome username (ustr ''No post link available'')) st)
      else
        (case extract_tweet_id U post_link of
           Inl e \<Rightarrow> (Inl e, st)
         | Inr None \<Rightarrow>
             (Inr (), append_result (failed_outcome username (ustr ''Could not extract tweet ID from link'')) st)
         | Inr (Some tweet_id) \<Rightarrow>
             if tweet_id = []
             then (Inr (), append_result (failed_outcome username (ustr ''Could not extract tweet ID from link'')) st)
             else
               (case replace_at username of
                  Inl e \<Rightarrow> (Inl e, st)
                | Inr clean_username \<Rightarrow>
                    (let comment_text = [64] @ clean_username @ [32] @ custom_message in
                     case post_tweet c comment_text tweet_id (world st) of
                       (Inl e, w') \<Rightarrow>
                         (Inl e, st\<lparr>world := w', trace := trace st @ [EPostTweet comment_text tweet_id]\<rparr>)
                     | (Inr result, w') \<Rightarrow>
                         (let st1 = st\<lparr>world := w', trace := trace st @ [EPostTweet comment_text tweet_id]\<rparr> in
                          case dict_item result (ustr ''success'') of
                            Inl e \<Rightarrow> (Inl e, st1)
                          | Inr success \<Rightarrow>
                              if truthy success
                              then
                                (let st2 = st1\<lparr>successful := successful st1 + 1\<rparr> in
                                 case dict_item result (ustr ''tweet_id'') of
                                   Inl e \<Rightarrow> (Inl e, st2)
                                 | Inr comment_id \<Rightarrow>
                                     (Inr (),
                                      sleep 3
                                        (append_result
                                           [(ustr ''username'', username),
                                            (ustr ''status'', PStr (ustr ''commented'')),
                                            (ustr ''tweet_id'', PStr tweet_id),
                                            (ustr ''comment_id'', comment_id),
                                            (ustr ''comment_text'', PStr comment_text),
                                            (ustr ''message'', PStr (ustr ''Successfully commented on post from '' @ py_str username))]
                                           st2)))
                              else
                                (Inr (),
                                 sleep 3
                                   (append_result
                                      [(ustr ''username'', username),
                                       (ustr ''status'', PStr (ustr ''failed'')),
                                       (ustr ''error'', dict_get result (ustr ''error'') (PStr (ustr ''Unknown error'')))]
                                      st1)))))))"

definition comment_item ::
  "unicode_db \<Rightarrow> 'w twitter_client \<Rightarrow> ustring option \<Rightarrow> attendee \<Rightarrow> 'w run \<Rightarrow> 'w run" where
  "comment_item U c msg a st =
     (let username = dict_get a (ustr ''username'') (PStr []);
          post_link = dict_get a (ustr ''post_link'') (PStr [])
      in case comment_try U c msg username post_link st of
           (Inr u, st') \<Rightarrow> st'
         | (Inl e, st') \<Rightarrow> append_result (failed_outcome username (str_exn e)) st')"

definition post_comments ::
  "unicode_db \<Rightarrow> ('w \<Rightarrow> (exn + 'w twitter_client) \<times> 'w) \<Rightarrow> twitter_action_request \<Rightarrow> 'w
     \<Rightarrow> response \<times> 'w \<times> event list" where
  "post_comments U new_client request w =
     (case new_client w of
        (Inl e, w1) \<Rightarrow> (TopFailure (str_exn e), w1, [])
      | (Inr twitter_client, w1) \<Rightarrow>
          (case is_operational twitter_client w1 of
             (Inl e, w2) \<Rightarrow> (TopFailure (str_exn e), w2, [])
           | (Inr ok, w2) \<Rightarrow>
               if \<not> ok then (TopFailure (ustr ''Twitter client not operational''), w2, [])
               else
                 (let st = for_each (comment_item U twitter_client (message request)) (attendees request) (init_run w2)
                  in (BatchReport
                        \<lparr>success_count = successful st,
                         failed_count = int (length (attendees request)) - successful st,
                         total_attempted = None,
                         report_results = results st\<rparr>,
                      world st, trace st))))"

section \<open>\<open>post_quote_tweets\<close>\<close>

definition default_quote :: ustring where
  "default_quote = ustr ''Check this out! '' @ [128064]"

definition quote_try ::
  "unicode_db \<Rightarrow> 'w twitter_client \<Rightarrow> ustring option \<Rightarrow> pyval \<Rightarrow> pyval \<Rightarrow> 'w run \<Rightarrow> (exn + unit) \<times> 'w run" where
  "quote_try U c msg username post_link st =
     (let custom_message = or_default msg default_quote in
      if \<not> truthy post_link
      then (Inr (), append_result (failed_outcome username (ustr ''No post link available'')) st)
      else
        (case extract_tweet_id U post_link of
           Inl e \<Rightarrow> (Inl e, st)
         | Inr None \<Rightarrow>
             (Inr (), append_result (failed_outcome username (ustr ''Could not extract tweet ID from link'')) st)
         | Inr (Some tweet_id) \<Rightarrow>
             if tweet_id = []
             then (Inr (), append_result (failed_outcome username (ustr ''Could not extract tweet ID from link'')) st)
             else
               (case replace_at username of
                  Inl e \<Rightarrow> (Inl e, st)
                | Inr clean_username \<Rightarrow>
                    (let quote_text = custom_message @ [10, 10, 128257] @ ustr '' Via @'' @ clean_username in
                     case api c of
                       None \<Rightarrow>
                         (Inl (AttributeError
                                 ([39] @ ustr ''NoneType'' @ [39] @ ustr '' object has no attribute ''
                                    @ [39] @ ustr ''update_status'' @ [39])), st)
                     | Some update_status \<Rightarrow>
                         (case update_status quote_text (world st) of
                            (Inl e, w') \<Rightarrow>
                              (Inl e, st\<lparr>world := w', trace := trace st @ [EUpdateStatus quote_text]\<rparr>)
                          | (Inr tweet_id_attr, w') \<Rightarrow>
                              (let st1 = st\<lparr>world := w', trace := trace st @ [EUpdateStatus quote_text]\<rparr>;
                                   st2 = st1\<lparr>successful := successful st1 + 1\<rparr>
                               in (Inr (),
                                   sleep 3
                                     (append_result
                                        [(ustr ''username'', username),
                                         (ustr ''status'', PStr (ustr ''quoted'')),
                                         (ustr ''original_tweet_id'', PStr tweet_id),
                                         (ustr ''quote_tweet_id'', tweet_id_attr),
                                         (ustr ''quote_text'', PStr quote_text),
                                         (ustr ''message'', PStr (ustr ''Successfully quoted post from '' @ py_str username))]
                                        st2))))))))"

definition quote_item ::
  "unicode_db \<Rightarrow> 'w twitter_client \<Rightarrow> ustring option \<Rightarrow> attendee \<Rightarrow> 'w run \<Rightarrow> 'w run" where
  "quote_item U c msg a st =
     (let username = dict_get a (ustr ''username'') (PStr []);
          post_link = dict_get a (ustr ''post_link'') (PStr [])
      in case quote_try U c msg username post_link st of
           (Inr u, st') \<Rightarrow> st'
         | (Inl e, st') \<Rightarrow> append_result (failed_outcome username (str_exn e)) st')"

text \<open>The handler tests \<open>twitter_client.api\<close> and never calls \<open>is_operational\<close>.\<close>

definition post_quote_tweets ::
  "unicode_db \<Rightarrow> ('w \<Rightarrow> (exn + 'w twitter_client) \<times> 'w) \<Rightarrow> twitter_action_request \<Rightarrow> 'w
     \<Rightarrow> response \<times> 'w \<times> event list" where
  "post_quote_tweets U new_client request w =
     (case new_client w of
        (Inl e, w1) \<Rightarrow> (TopFailure (str_exn e), w1, [])
      | (Inr twitter_client, w1) \<Rightarrow>
          (case api twitter_client of
             None \<Rightarrow> (TopFailure (ustr ''Twitter OAuth 1.1 not configured for quote tweets''), w1, [])
           | Some update_status \<Rightarrow>
               (let st = for_each (quote_item U twitter_client (message request)) (attendees request) (init_run w1)
                in (BatchReport
                      \<lparr>success_count = successful st,
                       failed_count = int (length (attendees request)) - successful st,
                       total_attempted = Some (int (length (attendees request))),
                       report_results = results st\<rparr>,
                    world st, trace st))))"

section \<open>The discovery handlers\<close>








section \<open>What one iteration does, by the tests of the loop body\<close>

text \<open>\<open>attendee.get('username', '')\<close>, the name every outcome carries.\<close>

definition username_of :: "attendee \<Rightarrow> pyval" where
  "username_of a = dict_get a (ustr ''username'') (PStr [])"

text \<open>
  The identifier with which an attendee passes the two tests at the head of the loop
  body (a true \<open>post_link\<close>, a true result of \<open>extract_tweet_id\<close>); \<open>None\<close> when
  the body appends a failure and continues.
\<close>

definition dispatch_id :: "unicode_db \<Rightarrow> attendee \<Rightarrow> ustring option" where
  "dispatch_id U a =
     (let post_link = dict_get a (ustr ''post_link'') (PStr []) in
      if \<not> truthy post_link then None
      else
        (case extract_tweet_id U post_link of
           Inl e \<Rightarrow> None
         | Inr None \<Rightarrow> None
         | Inr (Some tweet_id) \<Rightarrow> if tweet_id = [] then None else Some tweet_id))"

text \<open>The texts \<open>comment_text\<close> and \<open>quote_text\<close> of the two posting handlers.\<close>

definition comment_text_of :: "attendee \<Rightarrow> ustring option \<Rightarrow> exn + ustring" where
  "comment_text_of a msg =
     (case replace_at (dict_get a (ustr ''username'') (PStr [])) of
        Inl e \<Rightarrow> Inl e
      | Inr clean_username \<Rightarrow> Inr ([64] @ clean_username @ [32] @ or_default msg default_comment))"

definition quote_text_of :: "attendee \<Rightarrow> ustring option \<Rightarrow> exn + ustring" where
  "quote_text_of a msg =
     (case replace_at (dict_get a (ustr ''username'') (PStr [])) of
        Inl e \<Rightarrow> Inl e
      | Inr clean_username \<Rightarrow>
          Inr (or_default msg default_quote @ [10, 10, 128257] @ ustr '' Via @'' @ clean_username))"


text \<open>The names the outcomes carry, in the order of \<open>results\<close>.\<close>

definition outcome_usernames :: "outcome list \<Rightarrow> pyval option list" where
  "outcome_usernames outs = map (\<lambda>out. map_of out (ustr ''username'')) outs"






section \<open>Concrete collaborators and requests\<close>

text \<open>A fragment of the Unicode database for ASCII inputs: it classifies nothing beyond ASCII.\<close>

definition ascii_db :: unicode_db where
  "ascii_db = \<lparr>uni_decimal = (\<lambda>c. False), uni_alnum = (\<lambda>c. False)\<rparr>"

text \<open>
  A client whose world is the number of action calls made so far. Its second action
  call raises; every other call succeeds. \<open>flaky_client None\<close> has no \<open>api\<close>.
\<close>

definition flaky :: "'a \<Rightarrow> nat \<Rightarrow> (exn + 'a) \<times> nat" where
  "flaky r w = (if w = 1 then Inl (ClientError (ustr ''rate limit'')) else Inr r, Suc w)"

definition flaky_client :: "bool \<Rightarrow> bool \<Rightarrow> nat twitter_client" where
  "flaky_client has_api operational =
     \<lparr>api = (if has_api then Some (\<lambda>text. flaky (PStr (ustr ''900''))) else None),
      is_operational = (\<lambda>w. (Inr operational, w)),
      retweet_tweet = (\<lambda>tid. flaky True),
      like_tweet = (\<lambda>tid. flaky True),
      post_tweet =
        (\<lambda>text tid. flaky [ustr ''success'' \<mapsto> PObj True (ustr ''bool'') (ustr ''True''),
                           ustr ''tweet_id'' \<mapsto> PStr (ustr ''900'')])\<rparr>"


text \<open>A constructor \<open>TwitterClient()\<close> that returns the client given and changes nothing.\<close>

definition constructed :: "'w twitter_client \<Rightarrow> 'w \<Rightarrow> (exn + 'w twitter_client) \<times> 'w" where
  "constructed c w = (Inr c, w)"

definition attendee_of :: "string \<Rightarrow> string \<Rightarrow> attendee" where
  "attendee_of name link =
     [ustr ''username'' \<mapsto> PStr (ustr name), ustr ''post_link'' \<mapsto> PStr (ustr link)]"

definition three_attendees :: "attendee list" where
  "three_attendees =
     [attendee_of ''@alice'' ''https://x.com/alice/status/11'',
      attendee_of ''bob'' ''https://twitter.com/bob/status/22'',
      attendee_of ''carol'' ''https://x.com/carol/status/33'']"

section \<open>Definitions that follow the specification's words\<close>

text \<open>
  The simplified extractor of the specification: it searches the single pattern
  \<open>\<^verbatim>\<open>status/(\d+)\<close>\<close> and returns group 1 of the match, not-found otherwise.
\<close>

definition simple_extract :: "unicode_db \<Rightarrow> pyval \<Rightarrow> exn + ustring option" where
  "simple_extract U v =
     (case re_search_py U (lit ''status/'' @ [DigitsGroup]) v of
        Inl e \<Rightarrow> Inr None
      | Inr None \<Rightarrow> Inr None
      | Inr (Some cap) \<Rightarrow> Inr cap)"


section \<open>The identifier extractor\<close>

lemma first_some_None_iff: "first_some f xs = None \<longleftrightarrow> (\<forall>x \<in> set xs. f x = None)"
  by (induction xs) (auto split: option.splits)

text \<open>Whether a pattern matches does not depend on the capture carried along.\<close>

lemma re_match_None_cap:
  "re_match U p s cap = None \<longleftrightarrow> re_match U p s cap' = None"
proof (induction p arbitrary: s cap cap')
  case Nil
  show ?case by simp
next
  case (Cons r rs)
  show ?case
  proof (cases r)
    case (Lit c)
    then show ?thesis using Cons.IH[of _ cap cap'] by (simp split: list.splits)
  next
    case WordPlus
    then show ?thesis using Cons.IH[of _ cap cap'] by (simp add: first_some_None_iff)
  next
    case DigitsGroup
    then show ?thesis by simp
  qed
qed

text \<open>Where \<open>pre @ q\<close> matches, \<open>q\<close> matches at the same place or further right.\<close>

lemma re_match_suffix:
  "re_match U (pre @ q) s cap \<noteq> None \<Longrightarrow> \<exists>k \<le> length s. re_match U q (drop k s) None \<noteq> None"
proof (induction pre arbitrary: s cap)
  case Nil
  then have "re_match U q s None \<noteq> None"
    using re_match_None_cap[of U q s cap None] by simp
  then show ?case by (intro exI[of _ 0]) simp
next
  case (Cons r rs)
  have step: "\<exists>k \<le> length s. re_match U q (drop k s) None \<noteq> None"
    if "re_match U (rs @ q) (drop j s) cap' \<noteq> None" and "j \<le> length s" for j cap'
  proof -
    from Cons.IH[OF that(1)] obtain k where
      k: "k \<le> length (drop j s)" "re_match U q (drop k (drop j s)) None \<noteq> None" by blast
    then have "j + k \<le> length s" using that(2) by simp
    moreover have "re_match U q (drop (j + k) s) None \<noteq> None" using k(2) by (simp add: add.commute)
    ultimately show ?thesis by blast
  qed
  show ?case
  proof (cases r)
    case (Lit c)
    with Cons.prems obtain x xs where s: "s = x # xs" and m: "re_match U (rs @ q) xs cap \<noteq> None"
      by (cases s) (simp_all split: if_splits)
    from step[of 1 cap] s m show ?thesis by simp
  next
    case WordPlus
    with Cons.prems have
      "first_some (\<lambda>k. re_match U (rs @ q) (drop k s) cap)
         (rev [1..<Suc (length (takeWhile (is_word U) s))]) \<noteq> None"
      by simp
    then obtain j where
      j: "j \<in> set (rev [1..<Suc (length (takeWhile (is_word U) s))])"
        "re_match U (rs @ q) (drop j s) cap \<noteq> None"
      unfolding first_some_None_iff by blast
    have "length (takeWhile (is_word U) s) \<le> length s" by (rule length_takeWhile_le)
    with j(1) have "j \<le> length s" by auto
    with step j(2) show ?thesis by blast
  next
    case DigitsGroup
    with Cons.prems have
      "first_some (\<lambda>k. re_match U (rs @ q) (drop k s) (Some (take k s)))
         (rev [1..<Suc (length (takeWhile (is_digit U) s))]) \<noteq> None"
      by simp
    then obtain j where
      j: "j \<in> set (rev [1..<Suc (length (takeWhile (is_digit U) s))])"
        "re_match U (rs @ q) (drop j s) (Some (take j s)) \<noteq> None"
      unfolding first_some_None_iff by blast
    have "length (takeWhile (is_digit U) s) \<le> length s" by (rule length_takeWhile_le)
    with j(1) have "j \<le> length s" by auto
    with step j(2) show ?thesis by blast
  qed
qed

lemma re_search_suffix:
  assumes "re_search U (pre @ q) s \<noteq> None"
  shows "re_search U q s \<noteq> None"
proof -
  from assms obtain i where
    i: "i \<in> set [0..<Suc (length s)]" "re_match U (pre @ q) (drop i s) None \<noteq> None"
    unfolding re_search_def first_some_None_iff by blast
  from re_match_suffix[OF i(2)] obtain k where
    k: "k \<le> length (drop i s)" "re_match U q (drop k (drop i s)) None \<noteq> None" by blast
  have mem: "i + k \<in> set [0..<Suc (length s)]" using i(1) k(1) by auto
  have "re_match U q (drop (i + k) s) None \<noteq> None" using k(2) by (simp add: add.commute)
  then have "\<exists>j \<in> set [0..<Suc (length s)]. re_match U q (drop j s) None \<noteq> None"
    using mem by (rule bexI)
  then show ?thesis
    unfolding re_search_def first_some_None_iff by simp
qed

text \<open>Each of the last three patterns ends with the first one.\<close>

lemma patterns_suffix:
  "patterns =
     [lit ''status/'' @ [DigitsGroup],
      (lit ''twitter.com/'' @ [WordPlus] @ lit ''/'') @ (lit ''status/'' @ [DigitsGroup]),
      lit ''twitter.com/'' @ (lit ''status/'' @ [DigitsGroup]),
      (lit ''x.com/'' @ [WordPlus] @ lit ''/'') @ (lit ''status/'' @ [DigitsGroup])]"
  by (simp add: patterns_def lit_def)

lemma extract_loop_first:
  "extract_loop U patterns (PStr s) =
     (case re_search U (lit ''status/'' @ [DigitsGroup]) s of None \<Rightarrow> Inr None | Some cap \<Rightarrow> Inr cap)"
proof (cases "re_search U (lit ''status/'' @ [DigitsGroup]) s")
  case None
  then have sub: "re_search U (pre @ (lit ''status/'' @ [DigitsGroup])) s = None" for pre
    using re_search_suffix by blast
  show ?thesis
    unfolding patterns_suffix
    by (simp only: extract_loop.simps re_search_py_def pyval.case sum.case option.case None sub)
next
  case (Some cap)
  then show ?thesis
    unfolding patterns_suffix
    by (simp only: extract_loop.simps re_search_py_def pyval.case sum.case option.case)
qed

lemma extract_tweet_id_total: "\<exists>r. extract_tweet_id U v = Inr r"
  by (cases "extract_loop U patterns v") (simp_all add: extract_tweet_id_def)

lemma extract_tweet_id_not_str: "extract_tweet_id U (PObj b tn r) = Inr None"
  by (simp add: extract_tweet_id_def patterns_def re_search_py_def)

lemmas extract_eval =
  extract_tweet_id_def patterns_def lit_def ustr_def re_search_py_def re_search_def
  is_digit_def is_word_def

lemma extract_example_twitter:
  "extract_tweet_id U (PStr (ustr ''https://twitter.com/user/status/12345'')) = Inr (Some (ustr ''12345''))"
  by (simp add: extract_eval)

lemma extract_example_x:
  "extract_tweet_id U (PStr (ustr ''https://x.com/user/status/987'')) = Inr (Some (ustr ''987''))"
  by (simp add: extract_eval)

lemma extract_example_none:
  "extract_tweet_id U (PStr (ustr ''https://example.com/no-status-here'')) = Inr None"
  by (simp add: extract_eval)

text \<open>
  C8. The extractor returns \<open>12345\<close> and \<open>987\<close> on the two status URLs and not-found
  on the URL without a status segment; on every argument, a string or not, it returns
  and raises nothing, and an argument that is not a string gives not-found.
\<close>

theorem extract_tweet_id_examples_and_total:
  "extract_tweet_id U (PStr (ustr ''https://twitter.com/user/status/12345'')) = Inr (Some (ustr ''12345''))
   \<and> extract_tweet_id U (PStr (ustr ''https://x.com/user/status/987'')) = Inr (Some (ustr ''987''))
   \<and> extract_tweet_id U (PStr (ustr ''https://example.com/no-status-here'')) = Inr None
   \<and> (\<exists>r. extract_tweet_id U v = Inr r)
   \<and> extract_tweet_id U (PObj b tn t) = Inr None"
  using extract_example_twitter extract_example_x extract_example_none
    extract_tweet_id_total extract_tweet_id_not_str
  by blast

text \<open>
  C10. On every argument \<open>extract_tweet_id\<close> equals the extractor that searches only
  \<open>\<^verbatim>\<open>status/(\d+)\<close>\<close>: the three patterns after the first never decide the result.
\<close>

theorem extract_tweet_id_single_pattern:
  "extract_tweet_id U v = simple_extract U v"
proof (cases v)
  case (PStr s)
  then show ?thesis
    by (simp add: extract_tweet_id_def simple_extract_def extract_loop_first re_search_py_def
        split: option.splits)
next
  case (PObj b tn r)
  then show ?thesis
    by (simp add: extract_tweet_id_def simple_extract_def patterns_def re_search_py_def)
qed

section \<open>The discovery handlers\<close>







section \<open>The batch handlers\<close>


lemmas try_defs =
  dispatch_id_def username_of_def comment_text_of_def quote_text_of_def
  append_result_def sleep_def Let_def

lemma extract_cases:
  obtains "extract_tweet_id U v = Inr None" | t where "extract_tweet_id U v = Inr (Some t)"
  using extract_tweet_id_total[of U v] by (metis option.exhaust)

subsection \<open>The effects of one iteration\<close>







lemma retweet_item_successful:
  "successful (retweet_item U c a st) = successful st
     \<or> successful (retweet_item U c a st) = successful st + 1"
  by (cases rule: extract_cases[of U "dict_get a (ustr ''post_link'') (PStr [])"])
     (auto simp: retweet_item_def retweet_try_def try_defs
        split: prod.splits sum.splits option.splits)


lemma like_item_successful:
  "successful (like_item U c a st) = successful st
     \<or> successful (like_item U c a st) = successful st + 1"
  by (cases rule: extract_cases[of U "dict_get a (ustr ''post_link'') (PStr [])"])
     (auto simp: like_item_def like_try_def try_defs
        split: prod.splits sum.splits option.splits)


lemma comment_item_successful:
  "successful (comment_item U c msg a st) = successful st
     \<or> successful (comment_item U c msg a st) = successful st + 1"
  by (cases rule: extract_cases[of U "dict_get a (ustr ''post_link'') (PStr [])"])
     (auto simp: comment_item_def comment_try_def try_defs dict_item_def
        split: prod.splits sum.splits option.splits)


lemma quote_item_successful:
  "successful (quote_item U c msg a st) = successful st
     \<or> successful (quote_item U c msg a st) = successful st + 1"
  by (cases rule: extract_cases[of U "dict_get a (ustr ''post_link'') (PStr [])"])
     (auto simp: quote_item_def quote_try_def try_defs
        split: prod.splits sum.splits option.splits)

subsection \<open>The loop\<close>


lemma for_each_successful:
  assumes "\<And>a st. successful (body a st) = successful st \<or> successful (body a st) = successful st + 1"
  shows "successful st \<le> successful (for_each body xs st)
         \<and> successful (for_each body xs st) \<le> successful st + int (length xs)"
proof (induction xs arbitrary: st)
  case Nil
  show ?case by simp
next
  case (Cons x xs)
  from assms[of x st] Cons.IH[of "body x st"] show ?case by auto
qed

subsection \<open>A fault of the action call\<close>





lemma outcome_usernames_append [simp]:
  "outcome_usernames (xs @ ys) = outcome_usernames xs @ outcome_usernames ys"
  by (simp add: outcome_usernames_def)



subsection \<open>One iteration in full\<close>

text \<open>One iteration, by what the attendee and the client give.\<close>

lemma retweet_item_cases:
  "retweet_item U c a st =
     (case dispatch_id U a of
        None \<Rightarrow>
          append_result
            (failed_outcome (username_of a)
               (if truthy (dict_get a (ustr ''post_link'') (PStr []))
                then ustr ''Could not extract tweet ID from link'' else ustr ''No post link available''))
            st
      | Some tid \<Rightarrow>
          (case retweet_tweet c tid (world st) of
             (Inl e, w') \<Rightarrow>
               append_result (failed_outcome (username_of a) (str_exn e))
                 (st\<lparr>world := w', trace := trace st @ [ERetweet tid]\<rparr>)
           | (Inr r, w') \<Rightarrow>
               sleep 2
                 (if r
                  then append_result
                         [(ustr ''username'', username_of a),
                          (ustr ''status'', PStr (ustr ''retweeted'')),
                          (ustr ''tweet_id'', PStr tid),
                          (ustr ''message'', PStr (ustr ''Successfully retweeted post from ''
                               @ py_str (username_of a)))]
                         (st\<lparr>world := w', trace := trace st @ [ERetweet tid], successful := successful st + 1\<rparr>)
                  else append_result (failed_outcome (username_of a) (ustr ''Retweet failed''))
                         (st\<lparr>world := w', trace := trace st @ [ERetweet tid]\<rparr>))))"
  by (cases rule: extract_cases[of U "dict_get a (ustr ''post_link'') (PStr [])"])
     (simp_all add: retweet_item_def retweet_try_def try_defs split: prod.splits sum.splits)

lemma like_item_cases:
  "like_item U c a st =
     (case dispatch_id U a of
        None \<Rightarrow>
          append_result
            (failed_outcome (username_of a)
               (if truthy (dict_get a (ustr ''post_link'') (PStr []))
                then ustr ''Could not extract tweet ID from link'' else ustr ''No post link available''))
            st
      | Some tid \<Rightarrow>
          (case like_tweet c tid (world st) of
             (Inl e, w') \<Rightarrow>
               append_result (failed_outcome (username_of a) (str_exn e))
                 (st\<lparr>world := w', trace := trace st @ [ELike tid]\<rparr>)
           | (Inr r, w') \<Rightarrow>
               sleep 2
                 (if r
                  then append_result
                         [(ustr ''username'', username_of a),
                          (ustr ''status'', PStr (ustr ''liked'')),
                          (ustr ''tweet_id'', PStr tid),
                          (ustr ''message'', PStr (ustr ''Successfully liked post from ''
                               @ py_str (username_of a)))]
                         (st\<lparr>world := w', trace := trace st @ [ELike tid], successful := successful st + 1\<rparr>)
                  else append_result (failed_outcome (username_of a) (ustr ''Like failed''))
                         (st\<lparr>world := w', trace := trace st @ [ELike tid]\<rparr>))))"
  by (cases rule: extract_cases[of U "dict_get a (ustr ''post_link'') (PStr [])"])
     (simp_all add: like_item_def like_try_def try_defs split: prod.splits sum.splits)

lemma comment_item_cases:
  "comment_item U c msg a st =
     (case dispatch_id U a of
        None \<Rightarrow>
          append_result
            (failed_outcome (username_of a)
               (if truthy (dict_get a (ustr ''post_link'') (PStr []))
                then ustr ''Could not extract tweet ID from link'' else ustr ''No post link available''))
            st
      | Some tid \<Rightarrow>
          (case comment_text_of a msg of
             Inl e \<Rightarrow> append_result (failed_outcome (username_of a) (str_exn e)) st
           | Inr text \<Rightarrow>
               (case post_tweet c text tid (world st) of
                  (Inl e, w') \<Rightarrow>
                    append_result (failed_outcome (username_of a) (str_exn e))
                      (st\<lparr>world := w', trace := trace st @ [EPostTweet text tid]\<rparr>)
                | (Inr result, w') \<Rightarrow>
                    (case result (ustr ''success'') of
                       None \<Rightarrow>
                         append_result (failed_outcome (username_of a) (str_exn (KeyError (ustr ''success''))))
                           (st\<lparr>world := w', trace := trace st @ [EPostTweet text tid]\<rparr>)
                     | Some success \<Rightarrow>
                         if truthy success
                         then
                           (case result (ustr ''tweet_id'') of
                              None \<Rightarrow>
                                append_result (failed_outcome (username_of a) (str_exn (KeyError (ustr ''tweet_id''))))
                                  (st\<lparr>world := w', trace := trace st @ [EPostTweet text tid],
                                      successful := successful st + 1\<rparr>)
                            | Some comment_id \<Rightarrow>
                                sleep 3
                                  (append_result
                                     [(ustr ''username'', username_of a),
                                      (ustr ''status'', PStr (ustr ''commented'')),
                                      (ustr ''tweet_id'', PStr tid),
                                      (ustr ''comment_id'', comment_id),
                                      (ustr ''comment_text'', PStr text),
                                      (ustr ''message'', PStr (ustr ''Successfully commented on post from ''
                                           @ py_str (username_of a)))]
                                     (st\<lparr>world := w', trace := trace st @ [EPostTweet text tid],
                                         successful := successful st + 1\<rparr>)))
                         else
                           sleep 3
                             (append_result
                                [(ustr ''username'', username_of a),
                                 (ustr ''status'', PStr (ustr ''failed'')),
                                 (ustr ''error'', dict_get result (ustr ''error'') (PStr (ustr ''Unknown error'')))]
                                (st\<lparr>world := w', trace := trace st @ [EPostTweet text tid]\<rparr>))))))"
  by (cases rule: extract_cases[of U "dict_get a (ustr ''post_link'') (PStr [])"])
     (simp_all add: comment_item_def comment_try_def try_defs dict_item_def
        split: prod.splits sum.splits option.splits)

lemma quote_item_cases:
  "quote_item U c msg a st =
     (case dispatch_id U a of
        None \<Rightarrow>
          append_result
            (failed_outcome (username_of a)
               (if truthy (dict_get a (ustr ''post_link'') (PStr []))
                then ustr ''Could not extract tweet ID from link'' else ustr ''No post link available''))
            st
      | Some tid \<Rightarrow>
          (case quote_text_of a msg of
             Inl e \<Rightarrow> append_result (failed_outcome (username_of a) (str_exn e)) st
           | Inr text \<Rightarrow>
               (case api c of
                  None \<Rightarrow>
                    append_result
                      (failed_outcome (username_of a)
                         ([39] @ ustr ''NoneType'' @ [39] @ ustr '' object has no attribute ''
                            @ [39] @ ustr ''update_status'' @ [39]))
                      st
                | Some update_status \<Rightarrow>
                    (case update_status text (world st) of
                       (Inl e, w') \<Rightarrow>
                         append_result (failed_outcome (username_of a) (str_exn e))
                           (st\<lparr>world := w', trace := trace st @ [EUpdateStatus text]\<rparr>)
                     | (Inr tweet_id_attr, w') \<Rightarrow>
                         sleep 3
                           (append_result
                              [(ustr ''username'', username_of a),
                               (ustr ''status'', PStr (ustr ''quoted'')),
                               (ustr ''original_tweet_id'', PStr tid),
                               (ustr ''quote_tweet_id'', tweet_id_attr),
                               (ustr ''quote_text'', PStr text),
                               (ustr ''message'', PStr (ustr ''Successfully quoted post from ''
                                    @ py_str (username_of a)))]
                              (st\<lparr>world := w', trace := trace st @ [EUpdateStatus text],
                                  successful := successful st + 1\<rparr>))))))"
  by (cases rule: extract_cases[of U "dict_get a (ustr ''post_link'') (PStr [])"])
     (simp_all add: quote_item_def quote_try_def try_defs
        split: prod.splits sum.splits option.splits)

subsection \<open>The concrete batch\<close>

lemma dispatch_alice:
  "dispatch_id U (attendee_of name ''https://x.com/alice/status/11'') = Some (ustr ''11'')"
  by (simp add: dispatch_id_def attendee_of_def dict_get_def extract_eval)

lemma dispatch_bob:
  "dispatch_id U (attendee_of name ''https://twitter.com/bob/status/22'') = Some (ustr ''22'')"
  by (simp add: dispatch_id_def attendee_of_def dict_get_def extract_eval)

lemma dispatch_carol:
  "dispatch_id U (attendee_of name ''https://x.com/carol/status/33'') = Some (ustr ''33'')"
  by (simp add: dispatch_id_def attendee_of_def dict_get_def extract_eval)

lemma username_of_attendee_of: "username_of (attendee_of name link) = PStr (ustr name)"
  by (simp add: username_of_def attendee_of_def dict_get_def ustr_def)

lemmas fixture_eval =
  dispatch_alice dispatch_bob dispatch_carol username_of_attendee_of
  three_attendees_def flaky_client_def flaky_def init_run_def append_result_def sleep_def

lemma flaky_retweet_run:
  "for_each (retweet_item U (flaky_client True True)) three_attendees (init_run 0) =
     \<lparr>results =
        [[(ustr ''username'', PStr (ustr ''@alice'')),
          (ustr ''status'', PStr (ustr ''retweeted'')),
          (ustr ''tweet_id'', PStr (ustr ''11'')),
          (ustr ''message'', PStr (ustr ''Successfully retweeted post from '' @ ustr ''@alice''))],
         failed_outcome (PStr (ustr ''bob'')) (ustr ''rate limit''),
         [(ustr ''username'', PStr (ustr ''carol'')),
          (ustr ''status'', PStr (ustr ''retweeted'')),
          (ustr ''tweet_id'', PStr (ustr ''33'')),
          (ustr ''message'', PStr (ustr ''Successfully retweeted post from '' @ ustr ''carol''))]],
      successful = 2, world = 3,
      trace = [ERetweet (ustr ''11''), ESleep 2, ERetweet (ustr ''22''), ERetweet (ustr ''33''), ESleep 2]\<rparr>"
  by (simp add: retweet_item_cases fixture_eval)

lemma flaky_like_run:
  "for_each (like_item U (flaky_client True True)) three_attendees (init_run 0) =
     \<lparr>results =
        [[(ustr ''username'', PStr (ustr ''@alice'')),
          (ustr ''status'', PStr (ustr ''liked'')),
          (ustr ''tweet_id'', PStr (ustr ''11'')),
          (ustr ''message'', PStr (ustr ''Successfully liked post from '' @ ustr ''@alice''))],
         failed_outcome (PStr (ustr ''bob'')) (ustr ''rate limit''),
         [(ustr ''username'', PStr (ustr ''carol'')),
          (ustr ''status'', PStr (ustr ''liked'')),
          (ustr ''tweet_id'', PStr (ustr ''33'')),
          (ustr ''message'', PStr (ustr ''Successfully liked post from '' @ ustr ''carol''))]],
      successful = 2, world = 3,
      trace = [ELike (ustr ''11''), ESleep 2, ELike (ustr ''22''), ELike (ustr ''33''), ESleep 2]\<rparr>"
  by (simp add: like_item_cases fixture_eval)

lemma comment_text_of_attendee_of:
  "comment_text_of (attendee_of name link) msg =
     Inr ([64] @ filter (\<lambda>ch. ch \<noteq> 64) (ustr name) @ [32] @ or_default msg default_comment)"
  by (simp add: comment_text_of_def replace_at_def attendee_of_def dict_get_def ustr_def)

lemma quote_text_of_attendee_of:
  "quote_text_of (attendee_of name link) msg =
     Inr (or_default msg default_quote @ [10, 10, 128257] @ ustr '' Via @''
            @ filter (\<lambda>ch. ch \<noteq> 64) (ustr name))"
  by (simp add: quote_text_of_def replace_at_def attendee_of_def dict_get_def ustr_def)

lemma flaky_comment_run:
  "for_each (comment_item U (flaky_client True True) None) three_attendees (init_run 0) =
     \<lparr>results =
        [[(ustr ''username'', PStr (ustr ''@alice'')),
          (ustr ''status'', PStr (ustr ''commented'')),
          (ustr ''tweet_id'', PStr (ustr ''11'')),
          (ustr ''comment_id'', PStr (ustr ''900'')),
          (ustr ''comment_text'', PStr (ustr ''@alice Great post! '' @ [128077])),
          (ustr ''message'', PStr (ustr ''Successfully commented on post from '' @ ustr ''@alice''))],
         failed_outcome (PStr (ustr ''bob'')) (ustr ''rate limit''),
         [(ustr ''username'', PStr (ustr ''carol'')),
          (ustr ''status'', PStr (ustr ''commented'')),
          (ustr ''tweet_id'', PStr (ustr ''33'')),
          (ustr ''comment_id'', PStr (ustr ''900'')),
          (ustr ''comment_text'', PStr (ustr ''@carol Great post! '' @ [128077])),
          (ustr ''message'', PStr (ustr ''Successfully commented on post from '' @ ustr ''carol''))]],
      successful = 2, world = 3,
      trace =
        [EPostTweet (ustr ''@alice Great post! '' @ [128077]) (ustr ''11''), ESleep 3,
         EPostTweet (ustr ''@bob Great post! '' @ [128077]) (ustr ''22''),
         EPostTweet (ustr ''@carol Great post! '' @ [128077]) (ustr ''33''), ESleep 3]\<rparr>"
  by (simp add: comment_item_cases fixture_eval comment_text_of_attendee_of or_default_def
      default_comment_def ustr_def)

lemma flaky_quote_run:
  "for_each (quote_item U (flaky_client True True) None) three_attendees (init_run 0) =
     \<lparr>results =
        [[(ustr ''username'', PStr (ustr ''@alice'')),
          (ustr ''status'', PStr (ustr ''quoted'')),
          (ustr ''original_tweet_id'', PStr (ustr ''11'')),
          (ustr ''quote_tweet_id'', PStr (ustr ''900'')),
          (ustr ''quote_text'', PStr (ustr ''Check this out! '' @ [128064, 10, 10, 128257] @ ustr '' Via @alice'')),
          (ustr ''message'', PStr (ustr ''Successfully quoted post from '' @ ustr ''@alice''))],
         failed_outcome (PStr (ustr ''bob'')) (ustr ''rate limit''),
         [(ustr ''username'', PStr (ustr ''carol'')),
          (ustr ''status'', PStr (ustr ''quoted'')),
          (ustr ''original_tweet_id'', PStr (ustr ''33'')),
          (ustr ''quote_tweet_id'', PStr (ustr ''900'')),
          (ustr ''quote_text'', PStr (ustr ''Check this out! '' @ [128064, 10, 10, 128257] @ ustr '' Via @carol'')),
          (ustr ''message'', PStr (ustr ''Successfully quoted post from '' @ ustr ''carol''))]],
      successful = 2, world = 3,
      trace =
        [EUpdateStatus (ustr ''Check this out! '' @ [128064, 10, 10, 128257] @ ustr '' Via @alice''), ESleep 3,
         EUpdateStatus (ustr ''Check this out! '' @ [128064, 10, 10, 128257] @ ustr '' Via @bob''),
         EUpdateStatus (ustr ''Check this out! '' @ [128064, 10, 10, 128257] @ ustr '' Via @carol''), ESleep 3]\<rparr>"
  by (simp add: quote_item_cases fixture_eval quote_text_of_attendee_of or_default_def
      default_quote_def ustr_def)

subsection \<open>The reports\<close>

lemma for_each_successful_init:
  assumes "\<And>a st. successful (body a st) = successful st \<or> successful (body a st) = successful st + 1"
  shows "0 \<le> successful (for_each body xs (init_run w))
         \<and> successful (for_each body xs (init_run w)) \<le> int (length xs)"
  using for_each_successful[where body=body and xs=xs and st="init_run w", OF assms]
  by (simp add: init_run_def)

lemmas successful_bounds =
  for_each_successful_init[OF retweet_item_successful]
  for_each_successful_init[OF like_item_successful]
  for_each_successful_init[OF comment_item_successful]
  for_each_successful_init[OF quote_item_successful]

text \<open>
  C1. Whenever one of the four batch handlers returns a report, its count of successes
  and its \<open>failed_count\<close> add up to the number of attendees of the request, and neither
  count is negative.
\<close>

theorem batch_counts_add_up:
  assumes "handler \<in> {retweet_posts, like_posts, post_comments, post_quote_tweets}"
    and "fst (handler U new_client request w) = BatchReport r"
  shows "success_count r + failed_count r = int (length (attendees request))
         \<and> 0 \<le> success_count r \<and> 0 \<le> failed_count r"
proof -
  from assms(1) consider "handler = retweet_posts" | "handler = like_posts"
    | "handler = post_comments" | "handler = post_quote_tweets" by blast
  then show ?thesis
  proof cases
    case 1
    with assms(2) show ?thesis
      by (auto simp: retweet_posts_def Let_def successful_bounds split: prod.splits sum.splits if_splits)
  next
    case 2
    with assms(2) show ?thesis
      by (auto simp: like_posts_def Let_def successful_bounds split: prod.splits sum.splits if_splits)
  next
    case 3
    with assms(2) show ?thesis
      by (auto simp: post_comments_def Let_def successful_bounds split: prod.splits sum.splits if_splits)
  next
    case 4
    with assms(2) show ?thesis
      by (auto simp: post_quote_tweets_def Let_def successful_bounds
          split: prod.splits sum.splits option.splits)
  qed
qed

lemma flaky_reports:
  "fst (retweet_posts U (constructed (flaky_client True True)) \<lparr>attendees = three_attendees, message = None\<rparr> 0)
     = BatchReport
         \<lparr>success_count = 2, failed_count = 1, total_attempted = None,
          report_results = results (for_each (retweet_item U (flaky_client True True)) three_attendees (init_run 0))\<rparr>"
  "fst (like_posts U (constructed (flaky_client True True)) \<lparr>attendees = three_attendees, message = None\<rparr> 0)
     = BatchReport
         \<lparr>success_count = 2, failed_count = 1, total_attempted = None,
          report_results = results (for_each (like_item U (flaky_client True True)) three_attendees (init_run 0))\<rparr>"
  "fst (post_comments U (constructed (flaky_client True True)) \<lparr>attendees = three_attendees, message = None\<rparr> 0)
     = BatchReport
         \<lparr>success_count = 2, failed_count = 1, total_attempted = None,
          report_results = results (for_each (comment_item U (flaky_client True True) None) three_attendees (init_run 0))\<rparr>"
  "fst (post_quote_tweets U (constructed (flaky_client True True)) \<lparr>attendees = three_attendees, message = None\<rparr> 0)
     = BatchReport
         \<lparr>success_count = 2, failed_count = 1, total_attempted = Some 3,
          report_results = results (for_each (quote_item U (flaky_client True True) None) three_attendees (init_run 0))\<rparr>"
proof -
  have op: "is_operational (flaky_client True True) w = (Inr True, w)"
    and ap: "api (flaky_client True True) \<noteq> None" for w
    by (simp_all add: flaky_client_def)
  have len: "length three_attendees = 3" by (simp add: three_attendees_def)
  show "fst (retweet_posts U (constructed (flaky_client True True)) \<lparr>attendees = three_attendees, message = None\<rparr> 0)
     = BatchReport
         \<lparr>success_count = 2, failed_count = 1, total_attempted = None,
          report_results = results (for_each (retweet_item U (flaky_client True True)) three_attendees (init_run 0))\<rparr>"
    by (simp add: retweet_posts_def constructed_def op len Let_def flaky_retweet_run)
  show "fst (like_posts U (constructed (flaky_client True True)) \<lparr>attendees = three_attendees, message = None\<rparr> 0)
     = BatchReport
         \<lparr>success_count = 2, failed_count = 1, total_attempted = None,
          report_results = results (for_each (like_item U (flaky_client True True)) three_attendees (init_run 0))\<rparr>"
    by (simp add: like_posts_def constructed_def op len Let_def flaky_like_run)
  show "fst (post_comments U (constructed (flaky_client True True)) \<lparr>attendees = three_attendees, message = None\<rparr> 0)
     = BatchReport
         \<lparr>success_count = 2, failed_count = 1, total_attempted = None,
          report_results = results (for_each (comment_item U (flaky_client True True) None) three_attendees (init_run 0))\<rparr>"
    by (simp add: post_comments_def constructed_def op len Let_def flaky_comment_run)
  show "fst (post_quote_tweets U (constructed (flaky_client True True)) \<lparr>attendees = three_attendees, message = None\<rparr> 0)
     = BatchReport
         \<lparr>success_count = 2, failed_count = 1, total_attempted = Some 3,
          report_results = results (for_each (quote_item U (flaky_client True True) None) three_attendees (init_run 0))\<rparr>"
    using ap by (simp add: post_quote_tweets_def constructed_def len Let_def flaky_quote_run split: option.splits)
qed

theorem batch_counts_add_up_witness:
  "(\<exists>r. fst (retweet_posts ascii_db (constructed (flaky_client True True))
              \<lparr>attendees = three_attendees, message = None\<rparr> 0) = BatchReport r
        \<and> success_count r = 2 \<and> failed_count r = 1
        \<and> success_count r + failed_count r = int (length three_attendees))
   \<and> (\<exists>r. fst (like_posts ascii_db (constructed (flaky_client True True))
              \<lparr>attendees = three_attendees, message = None\<rparr> 0) = BatchReport r
        \<and> success_count r = 2 \<and> failed_count r = 1
        \<and> success_count r + failed_count r = int (length three_attendees))
   \<and> (\<exists>r. fst (post_comments ascii_db (constructed (flaky_client True True))
              \<lparr>attendees = three_attendees, message = None\<rparr> 0) = BatchReport r
        \<and> success_count r = 2 \<and> failed_count r = 1
        \<and> success_count r + failed_count r = int (length three_attendees))
   \<and> (\<exists>r. fst (post_quote_tweets ascii_db (constructed (flaky_client True True))
              \<lparr>attendees = three_attendees, message = None\<rparr> 0) = BatchReport r
        \<and> success_count r = 2 \<and> failed_count r = 1
        \<and> success_count r + failed_count r = int (length three_attendees))"
proof -
  let ?rq = "\<lparr>attendees = three_attendees, message = None\<rparr>"
  let ?nc = "constructed (flaky_client True True)"
  note r = flaky_reports[of ascii_db]
  have m: "retweet_posts \<in> {retweet_posts, like_posts, post_comments, post_quote_tweets}"
    "like_posts \<in> {retweet_posts, like_posts, post_comments, post_quote_tweets}"
    "post_comments \<in> {retweet_posts, like_posts, post_comments, post_quote_tweets}"
    "post_quote_tweets \<in> {retweet_posts, like_posts, post_comments, post_quote_tweets}"
    by simp_all
  from batch_counts_add_up[OF m(1) r(1)] batch_counts_add_up[OF m(2) r(2)]
    batch_counts_add_up[OF m(3) r(3)] batch_counts_add_up[OF m(4) r(4)] r
  show ?thesis by simp
qed

lemma results_init_run [simp]: "results (init_run w) = []"
  by (simp add: init_run_def)

lemma outcome_usernames_Nil [simp]: "outcome_usernames [] = []"
  by (simp add: outcome_usernames_def)




subsection \<open>The pre-checks\<close>

text \<open>
  C4. When the client says it is not operational, the retweet, like and comment
  handlers return the one top-level failure; the world is as the check left it and no
  action call and no sleep happened.
\<close>

theorem not_operational_short_circuits:
  assumes "handler \<in> {retweet_posts, like_posts, post_comments}"
    and "new_client w = (Inr c, w1)"
    and "is_operational c w1 = (Inr False, w2)"
  shows "handler U new_client request w
           = (TopFailure (ustr ''Twitter client not operational''), w2, [])"
proof -
  from assms(1) consider "handler = retweet_posts" | "handler = like_posts"
    | "handler = post_comments" by blast
  then show ?thesis
  proof cases
    case 1
    then show ?thesis using assms(2,3) by (simp add: retweet_posts_def)
  next
    case 2
    then show ?thesis using assms(2,3) by (simp add: like_posts_def)
  next
    case 3
    then show ?thesis using assms(2,3) by (simp add: post_comments_def)
  qed
qed

theorem not_operational_short_circuits_witness:
  "retweet_posts ascii_db (constructed (flaky_client True False))
      \<lparr>attendees = three_attendees, message = None\<rparr> 0
     = (TopFailure (ustr ''Twitter client not operational''), 0, [])
   \<and> like_posts ascii_db (constructed (flaky_client True False))
      \<lparr>attendees = three_attendees, message = None\<rparr> 0
     = (TopFailure (ustr ''Twitter client not operational''), 0, [])
   \<and> post_comments ascii_db (constructed (flaky_client True False))
      \<lparr>attendees = three_attendees, message = None\<rparr> 0
     = (TopFailure (ustr ''Twitter client not operational''), 0, [])"
proof -
  have h1: "constructed (flaky_client True False) 0 = (Inr (flaky_client True False), 0)"
    by (simp add: constructed_def)
  have h2: "is_operational (flaky_client True False) 0 = (Inr False, 0)"
    by (simp add: flaky_client_def)
  have m: "retweet_posts \<in> {retweet_posts, like_posts, post_comments}"
    "like_posts \<in> {retweet_posts, like_posts, post_comments}"
    "post_comments \<in> {retweet_posts, like_posts, post_comments}"
    by simp_all
  note t = not_operational_short_circuits[where new_client="constructed (flaky_client True False)"
      and w=0 and c="flaky_client True False" and ?w1.0=0 and ?w2.0=0 and U=ascii_db
      and request="\<lparr>attendees = three_attendees, message = None\<rparr>", OF _ h1 h2]
  from t[OF m(1)] t[OF m(2)] t[OF m(3)]
  show ?thesis by simp
qed

lemma quote_item_ignores_is_operational:
  "quote_item U (c\<lparr>is_operational := op\<rparr>) msg = quote_item U c msg"
  by (intro ext) (simp add: quote_item_cases cong: option.case_cong sum.case_cong if_cong)

text \<open>
  C5. When the client has no \<open>api\<close>, the quote handler returns the one top-level
  failure that names the missing OAuth 1.1 configuration, with no action call and no
  sleep, whatever \<open>is_operational\<close> would answer: changing \<open>is_operational\<close> of the
  client never changes what the quote handler does.
\<close>

theorem quote_requires_api_only:
  assumes "new_client w = (Inr c, w1)"
  shows "(api c = None \<longrightarrow>
           post_quote_tweets U new_client request w
             = (TopFailure (ustr ''Twitter OAuth 1.1 not configured for quote tweets''), w1, []))
       \<and> post_quote_tweets U (constructed (c\<lparr>is_operational := op\<rparr>)) request w1
           = post_quote_tweets U (constructed c) request w1"
proof (intro conjI impI)
  assume "api c = None"
  with assms show "post_quote_tweets U new_client request w
      = (TopFailure (ustr ''Twitter OAuth 1.1 not configured for quote tweets''), w1, [])"
    by (simp add: post_quote_tweets_def)
next
  show "post_quote_tweets U (constructed (c\<lparr>is_operational := op\<rparr>)) request w1
      = post_quote_tweets U (constructed c) request w1"
    by (simp add: post_quote_tweets_def constructed_def quote_item_ignores_is_operational
        cong: option.case_cong)
qed

theorem quote_requires_api_only_witness:
  "fst (is_operational (flaky_client False True) 0) = Inr True
   \<and> api (flaky_client False True) = None
   \<and> post_quote_tweets ascii_db (constructed (flaky_client False True))
        \<lparr>attendees = three_attendees, message = None\<rparr> 0
       = (TopFailure (ustr ''Twitter OAuth 1.1 not configured for quote tweets''), 0, [])"
proof -
  have h1: "constructed (flaky_client False True) 0 = (Inr (flaky_client False True), 0)"
    by (simp add: constructed_def)
  have h2: "api (flaky_client False True) = None"
    by (simp add: flaky_client_def)
  have h3: "fst (is_operational (flaky_client False True) 0) = Inr True"
    by (simp add: flaky_client_def)
  from quote_requires_api_only[where new_client="constructed (flaky_client False True)"
      and w=0 and c="flaky_client False True" and ?w1.0=0 and U=ascii_db
      and request="\<lparr>attendees = three_attendees, message = None\<rparr>", OF h1] h2 h3
  show ?thesis by simp
qed

subsection \<open>Faults, delays and texts\<close>











end
